theory Spec2Isabelle
  imports Complex_Main "HOL-Library.Word"
begin

section \<open>The ticker firmware (btc\_ticker\_weather\_websrv.ino)\<close>

text \<open>
  The firmware is one cooperative control loop over global variables. The model keeps
  the globals and the \<^verbatim>\<open>static\<close> locals of \<^verbatim>\<open>loop()\<close> in one record, passes it
  through each block of the loop in source order, and appends everything the code
  sends to a collaborator (HTTP requests, draw calls, pin writes) to a log.

  \<^item> \<^verbatim>\<open>unsigned long\<close> is 32 bits on the ESP8266 and \<^verbatim>\<open>millis()\<close> wraps: \<open>32 word\<close>.
  \<^item> \<^verbatim>\<open>uint8_t\<close> is \<open>8 word\<close>.
  \<^item> \<^verbatim>\<open>alert_low\<close> and \<^verbatim>\<open>alert_high\<close> are C \<^verbatim>\<open>int\<close>s that are only compared,
    never computed with: \<open>int\<close>.
  \<^item> The price is a \<^verbatim>\<open>float\<close> that is only compared and stored: \<open>real\<close>. The
    rounding of an \<^verbatim>\<open>int\<close> threshold beyond 24 bits in the comparison is not modelled.
\<close>

type_synonym ulong = "32 word"
type_synonym uint8 = "8 word"

subsection \<open>Configuration\<close>

text \<open>
  \<^verbatim>\<open>struct Config\<close>, without the fields that only build URLs, pages and pixels
  (credentials, currency, crypto, time format, location, rotation, wind, password).
\<close>

record Config =
  api_source :: uint8
  poll_interval :: ulong
  alert_low :: int
  alert_high :: int
  blink_pattern_low :: uint8
  blink_pattern_high :: uint8
  weather_enabled :: bool
  weather_poll :: ulong
  btc_cycle :: ulong
  weather_cycle :: ulong
  button_mode :: uint8
  alert_mode :: uint8
  led_pin :: uint8
  led_inverted :: bool
  alert_duration :: ulong
  touch_enabled :: bool
  d5_weather_mode :: bool
  d5_btc_mode :: bool
  d5_timeout :: ulong

text \<open>The member initialisers of \<^verbatim>\<open>struct Config\<close>.\<close>

definition default_config :: Config where
  "default_config =
     \<lparr> api_source = 0, poll_interval = 60000, alert_low = 0, alert_high = 0,
       blink_pattern_low = 0, blink_pattern_high = 1, weather_enabled = False,
       weather_poll = 1800000, btc_cycle = 120000, weather_cycle = 10000,
       button_mode = 0, alert_mode = 0, led_pin = 2, led_inverted = True,
       alert_duration = 0, touch_enabled = False, d5_weather_mode = False,
       d5_btc_mode = False, d5_timeout = 5000 \<rparr>"

subsection \<open>Collaborators\<close>

datatype provider = Binance | CoinGecko | Coinbase | Kraken

datatype weather_provider = OpenMeteo | BrightSky

text \<open>
  Everything the loop sends out, in the order it is sent. \<open>UpdateDisplay\<close> is
  \<^verbatim>\<open>updateDisplay()\<close> (the BTC screen), \<open>DrawWeatherScreen\<close> is
  \<^verbatim>\<open>drawWeatherScreen()\<close>, \<open>ClearDisplay\<close> the blank frame of a blink,
  \<open>DigitalWrite pin level\<close> has \<open>True\<close> for \<^verbatim>\<open>HIGH\<close>.
\<close>

datatype effect =
    HttpGet provider
  | WeatherGet weather_provider
  | WiFiReconnect
  | DrawWiFiIcon bool
  | UpdateDisplay
  | DrawWeatherScreen
  | DrawCountdown int
  | DrawResetting
  | ClearDisplay
  | DigitalWrite uint8 bool
  | FormatFS
  | WiFiDisconnect
  | EspRestart

text \<open>
  What a price provider's answer holds once the HTTP status, the JSON and the keys have
  been checked: the price, the 24h change (Binance, CoinGecko), Kraken's opening price
  when present, and the value of \<^verbatim>\<open>millis()\<close> read on success. \<open>None\<close> is every
  failure (timeout, HTTP error, JSON error, missing key).
\<close>

record reply =
  r_price :: real
  r_change :: real
  r_open :: "real option"
  r_millis :: ulong

type_synonym net = "provider \<Rightarrow> reply option"

subsection \<open>Global state\<close>

record State =
  g_currentPrice :: real
  g_priceChange24h :: real
  g_wifiConnected :: bool
  g_hasValidData :: bool
  g_dataStale :: bool
  g_lastPollTime :: ulong
  g_lastSuccessTime :: ulong
  g_currentProvider :: uint8
  g_consecutiveFailures :: uint8
  g_hasWeatherData :: bool
  g_weatherStale :: bool
  g_lastWeatherPoll :: ulong
  g_lastWeatherSuccess :: ulong
  g_currentScreen :: uint8
  g_lastScreenSwitch :: ulong
  g_alertStartTime :: ulong
  lastWiFiCheck :: ulong
  screenBtnPressStart :: ulong
  screenBtnHandled :: bool
  lastTouchTime :: ulong
  btnPressStart :: ulong
  d5WeatherShowing :: bool
  d5BtcShowing :: bool
  d5BtcReleaseTime :: ulong
  d5WeatherReleaseTime :: ulong
  lastBlinkTime :: ulong
  blinkState :: bool
  ledCleanedUp :: bool
  sosStep :: uint8
  out :: "effect list"

text \<open>The initialisers of the globals and of the statics of \<^verbatim>\<open>loop()\<close>.\<close>

definition init_state :: State where
  "init_state =
     \<lparr> g_currentPrice = 0, g_priceChange24h = 0, g_wifiConnected = False,
       g_hasValidData = False, g_dataStale = False, g_lastPollTime = 0,
       g_lastSuccessTime = 0, g_currentProvider = 0, g_consecutiveFailures = 0,
       g_hasWeatherData = False, g_weatherStale = False, g_lastWeatherPoll = 0,
       g_lastWeatherSuccess = 0, g_currentScreen = 0, g_lastScreenSwitch = 0,
       g_alertStartTime = 0, lastWiFiCheck = 0, screenBtnPressStart = 0,
       screenBtnHandled = False, lastTouchTime = 0, btnPressStart = 0,
       d5WeatherShowing = False, d5BtcShowing = False, d5BtcReleaseTime = 0,
       d5WeatherReleaseTime = 0, lastBlinkTime = 0, blinkState = True,
       ledCleanedUp = True, sosStep = 0, out = [] \<rparr>"

definition emit :: "effect list \<Rightarrow> State \<Rightarrow> State" where
  "emit es s = s\<lparr>out := out s @ es\<rparr>"

subsection \<open>Price providers\<close>

definition fetchPriceBinance :: "net \<Rightarrow> State \<Rightarrow> bool \<times> State" where
  "fetchPriceBinance n s0 =
     (let s = emit [HttpGet Binance] s0 in
      case n Binance of
        Some r \<Rightarrow>
          (True, s\<lparr>g_currentPrice := r_price r, g_priceChange24h := r_change r,
                   g_hasValidData := True, g_dataStale := False,
                   g_lastSuccessTime := r_millis r\<rparr>)
      | None \<Rightarrow> (False, s))"

definition fetchPriceCoinGecko :: "net \<Rightarrow> State \<Rightarrow> bool \<times> State" where
  "fetchPriceCoinGecko n s0 =
     (let s = emit [HttpGet CoinGecko] s0 in
      case n CoinGecko of
        Some r \<Rightarrow>
          (True, s\<lparr>g_currentPrice := r_price r, g_priceChange24h := r_change r,
                   g_hasValidData := True, g_dataStale := False,
                   g_lastSuccessTime := r_millis r\<rparr>)
      | None \<Rightarrow> (False, s))"

text \<open>Coinbase's spot price has no 24h change: the code stores 0.\<close>

definition fetchPriceCoinbase :: "net \<Rightarrow> State \<Rightarrow> bool \<times> State" where
  "fetchPriceCoinbase n s0 =
     (let s = emit [HttpGet Coinbase] s0 in
      case n Coinbase of
        Some r \<Rightarrow>
          (True, s\<lparr>g_currentPrice := r_price r, g_priceChange24h := 0,
                   g_hasValidData := True, g_dataStale := False,
                   g_lastSuccessTime := r_millis r\<rparr>)
      | None \<Rightarrow> (False, s))"

text \<open>
  Kraken: the change is computed from the opening price when it is present and the
  price is positive. (A zero opening price divides by zero in the source; here the
  quotient is HOL's 0. No property below reads the change.)
\<close>

definition fetchPriceKraken :: "net \<Rightarrow> State \<Rightarrow> bool \<times> State" where
  "fetchPriceKraken n s0 =
     (let s = emit [HttpGet Kraken] s0 in
      case n Kraken of
        Some r \<Rightarrow>
          (True, s\<lparr>g_currentPrice := r_price r,
                   g_priceChange24h :=
                     (case r_open r of
                        Some opn \<Rightarrow>
                          if r_price r > 0 then ((r_price r - opn) / opn) * 100 else 0
                      | None \<Rightarrow> 0),
                   g_hasValidData := True, g_dataStale := False,
                   g_lastSuccessTime := r_millis r\<rparr>)
      | None \<Rightarrow> (False, s))"

text \<open>
  \<^verbatim>\<open>if (!success) { g_currentProvider = id; success = fetchPriceX(); }\<close>
\<close>

definition or_else :: "uint8 \<Rightarrow> (State \<Rightarrow> bool \<times> State) \<Rightarrow> bool \<times> State \<Rightarrow> bool \<times> State" where
  "or_else pid fetch r =
     (if \<not> fst r then fetch ((snd r)\<lparr>g_currentProvider := pid\<rparr>) else r)"

definition fetchPrice :: "Config \<Rightarrow> net \<Rightarrow> State \<Rightarrow> State" where
  "fetchPrice c n s =
     (if \<not> g_wifiConnected s then s
      else
        let r =
          (if api_source c = 1 then
             fetchPriceBinance n (s\<lparr>g_currentProvider := 0\<rparr>)
           else if api_source c = 2 then
             or_else 3 (fetchPriceKraken n)
               (or_else 2 (fetchPriceCoinbase n)
                 (or_else 0 (fetchPriceBinance n)
                   (fetchPriceCoinGecko n (s\<lparr>g_currentProvider := 1\<rparr>))))
           else if api_source c = 3 then
             or_else 3 (fetchPriceKraken n)
               (or_else 1 (fetchPriceCoinGecko n)
                 (or_else 0 (fetchPriceBinance n)
                   (fetchPriceCoinbase n (s\<lparr>g_currentProvider := 2\<rparr>))))
           else if api_source c = 4 then
             or_else 2 (fetchPriceCoinbase n)
               (or_else 1 (fetchPriceCoinGecko n)
                 (or_else 0 (fetchPriceBinance n)
                   (fetchPriceKraken n (s\<lparr>g_currentProvider := 3\<rparr>))))
           else
             or_else 3 (fetchPriceKraken n)
               (or_else 2 (fetchPriceCoinbase n)
                 (or_else 1 (fetchPriceCoinGecko n)
                   (fetchPriceBinance n (s\<lparr>g_currentProvider := 0\<rparr>)))))
        in if \<not> fst r
           then (snd r)\<lparr>g_consecutiveFailures := g_consecutiveFailures (snd r) + 1\<rparr>
           else (snd r)\<lparr>g_consecutiveFailures := 0\<rparr>)"

subsection \<open>Weather providers\<close>

text \<open>
  Of a weather answer the loop only uses whether it was complete and the value of
  \<^verbatim>\<open>millis()\<close> read on success; the readings themselves are only drawn.
\<close>

type_synonym wnet = "weather_provider \<Rightarrow> ulong option"

definition fetchWeatherOpenMeteo :: "wnet \<Rightarrow> State \<Rightarrow> bool \<times> State" where
  "fetchWeatherOpenMeteo w s0 =
     (let s = emit [WeatherGet OpenMeteo] s0 in
      case w OpenMeteo of
        Some t \<Rightarrow>
          (True, s\<lparr>g_hasWeatherData := True, g_weatherStale := False,
                   g_lastWeatherSuccess := t\<rparr>)
      | None \<Rightarrow> (False, s))"

definition fetchWeatherBrightSky :: "wnet \<Rightarrow> State \<Rightarrow> bool \<times> State" where
  "fetchWeatherBrightSky w s0 =
     (let s = emit [WeatherGet BrightSky] s0 in
      case w BrightSky of
        Some t \<Rightarrow>
          (True, s\<lparr>g_hasWeatherData := True, g_weatherStale := False,
                   g_lastWeatherSuccess := t\<rparr>)
      | None \<Rightarrow> (False, s))"

definition fetchWeather :: "Config \<Rightarrow> wnet \<Rightarrow> State \<Rightarrow> State" where
  "fetchWeather c w s =
     (if \<not> g_wifiConnected s \<or> \<not> weather_enabled c then s
      else
        let r = fetchWeatherOpenMeteo w s;
            r = (if \<not> fst r then fetchWeatherBrightSky w (snd r) else r)
        in if \<not> fst r
           then (if g_hasWeatherData (snd r) then (snd r)\<lparr>g_weatherStale := True\<rparr>
                 else snd r)
           else snd r)"

subsection \<open>Drawing\<close>

definition updateDisplay :: "State \<Rightarrow> State" where
  "updateDisplay s = emit [UpdateDisplay] s"

definition drawWeatherScreen :: "State \<Rightarrow> State" where
  "drawWeatherScreen s = emit [DrawWeatherScreen] s"

definition refreshCurrentScreen :: "State \<Rightarrow> State" where
  "refreshCurrentScreen s =
     (if g_currentScreen s = 0 then updateDisplay s else drawWeatherScreen s)"

subsection \<open>What one iteration of the loop reads\<close>

text \<open>
  One iteration reads the clock at its start (\<^verbatim>\<open>currentMillis\<close>) and again in the two
  staleness checks, the WiFi status, the answers of the providers it asks (one set for
  the fetch on reconnection, one for the poll), and the levels of the input pins
  (\<open>True\<close> is \<^verbatim>\<open>HIGH\<close>). The screen button on D6 is pressed when its pin is
  \<^verbatim>\<open>LOW\<close>, the button on D5 when its pin is \<^verbatim>\<open>HIGH\<close>.
\<close>

record Inputs =
  in_millis :: ulong
  in_wifi_status :: bool
  in_net_reconnect :: net
  in_net_poll :: net
  in_millis_stale :: ulong
  in_wnet :: wnet
  in_millis_wstale :: ulong
  in_screen_btn :: bool
  in_reset_btn :: bool
  in_btn_a :: bool
  in_btn_b :: bool
  in_btn_c :: bool

subsection \<open>The blocks of \<^verbatim>\<open>loop()\<close>, in source order\<close>

text \<open>Check WiFi and reconnect (every 30 s).\<close>

definition wifi_check :: "Config \<Rightarrow> Inputs \<Rightarrow> State \<Rightarrow> State" where
  "wifi_check c i s0 =
     (let currentMillis = in_millis i in
      if currentMillis - lastWiFiCheck s0 > 30000 then
        let s = s0\<lparr>lastWiFiCheck := currentMillis\<rparr> in
        if \<not> in_wifi_status i then
          emit [WiFiReconnect, DrawWiFiIcon False] (s\<lparr>g_wifiConnected := False\<rparr>)
        else if \<not> g_wifiConnected s then
          updateDisplay (fetchPrice c (in_net_reconnect i) (s\<lparr>g_wifiConnected := True\<rparr>))
        else s
      else s0)"

text \<open>Poll the price, then check staleness.\<close>

definition poll_price :: "Config \<Rightarrow> Inputs \<Rightarrow> State \<Rightarrow> State" where
  "poll_price c i s0 =
     (let currentMillis = in_millis i in
      if currentMillis - g_lastPollTime s0 \<ge> poll_interval c then
        let s = fetchPrice c (in_net_poll i) s0;
            s = (if in_millis_stale i - g_lastSuccessTime s > poll_interval c * 3
                 then s\<lparr>g_dataStale := True\<rparr> else s);
            s = (if g_currentScreen s = 0 then updateDisplay s else s)
        in s\<lparr>g_lastPollTime := currentMillis\<rparr>
      else s0)"

text \<open>Poll the weather (if enabled).\<close>

definition poll_weather :: "Config \<Rightarrow> Inputs \<Rightarrow> State \<Rightarrow> State" where
  "poll_weather c i s0 =
     (let currentMillis = in_millis i in
      if weather_enabled c \<and> currentMillis - g_lastWeatherPoll s0 \<ge> weather_poll c then
        let s = fetchWeather c (in_wnet i) s0;
            s = (if in_millis_wstale i - g_lastWeatherSuccess s > weather_poll c * 3
                 then s\<lparr>g_weatherStale := True\<rparr> else s);
            s = (if g_currentScreen s = 1 then drawWeatherScreen s else s)
        in s\<lparr>g_lastWeatherPoll := currentMillis\<rparr>
      else s0)"

text \<open>Screen cycling (only in auto-cycle mode, \<^verbatim>\<open>button_mode == 0\<close>).\<close>

definition screen_cycling :: "Config \<Rightarrow> Inputs \<Rightarrow> State \<Rightarrow> State" where
  "screen_cycling c i s =
     (let currentMillis = in_millis i in
      if weather_enabled c \<and> button_mode c = 0 then
        let currentCycle = (if g_currentScreen s = 0 then btc_cycle c else weather_cycle c) in
        if currentMillis - g_lastScreenSwitch s \<ge> currentCycle then
          refreshCurrentScreen
            (s\<lparr>g_currentScreen := (g_currentScreen s + 1) mod 2,
               g_lastScreenSwitch := currentMillis\<rparr>)
        else s
      else s)"

text \<open>On-demand mode: return to the BTC screen after \<^verbatim>\<open>weather_cycle\<close>.\<close>

definition on_demand_return :: "Config \<Rightarrow> Inputs \<Rightarrow> State \<Rightarrow> State" where
  "on_demand_return c i s =
     (let currentMillis = in_millis i in
      if weather_enabled c \<and> button_mode c = 2 \<and> g_currentScreen s = 1 \<and>
         currentMillis - g_lastScreenSwitch s \<ge> weather_cycle c
      then updateDisplay (s\<lparr>g_currentScreen := 0, g_lastScreenSwitch := currentMillis\<rparr>)
      else s)"

text \<open>Screen toggle button (D6): a short press, handled on release.\<close>

definition screen_button :: "Config \<Rightarrow> Inputs \<Rightarrow> State \<Rightarrow> State" where
  "screen_button c i s0 =
     (let currentMillis = in_millis i in
      if \<not> in_screen_btn i then
        (if screenBtnPressStart s0 = 0
         then s0\<lparr>screenBtnPressStart := currentMillis, screenBtnHandled := False\<rparr>
         else s0)
      else
        let s =
          (if screenBtnPressStart s0 > 0 \<and> \<not> screenBtnHandled s0 then
             let pressDuration = currentMillis - screenBtnPressStart s0 in
             if pressDuration > 50 \<and> pressDuration < 1000 then
               let s1 =
                 (if weather_enabled c then
                    let s2 =
                      (if button_mode c = 0 then
                         s0\<lparr>g_currentScreen := (g_currentScreen s0 + 1) mod 2\<rparr>
                       else if button_mode c = 1 then s0\<lparr>g_currentScreen := 1\<rparr>
                       else if button_mode c = 2 then s0\<lparr>g_currentScreen := 1\<rparr>
                       else s0)
                    in refreshCurrentScreen (s2\<lparr>g_lastScreenSwitch := currentMillis\<rparr>)
                  else s0)
               in s1\<lparr>screenBtnHandled := True\<rparr>
             else s0
           else s0)
        in s\<lparr>screenBtnPressStart := 0\<rparr>)"

text \<open>TTP223 touch buttons: a debounce timestamp and debug output only.\<close>

definition touch_polling :: "Config \<Rightarrow> Inputs \<Rightarrow> State \<Rightarrow> State" where
  "touch_polling c i s =
     (let currentMillis = in_millis i in
      if touch_enabled c then
        (if currentMillis - lastTouchTime s > 200 then
           (if in_btn_a i then s\<lparr>lastTouchTime := currentMillis\<rparr>
            else if in_btn_b i then s\<lparr>lastTouchTime := currentMillis\<rparr>
            else if in_btn_c i then s\<lparr>lastTouchTime := currentMillis\<rparr>
            else s)
         else s)
      else s)"

text \<open>
  The D5 button: BTC button (weather is the default screen), weather button (BTC is the
  default screen), or factory reset. \<^verbatim>\<open>ESP.restart()\<close> does not return: the
  iteration ends there, with the state and log of that moment.
\<close>

datatype halt = FactoryReset State

definition d5_button :: "Config \<Rightarrow> Inputs \<Rightarrow> State \<Rightarrow> halt + State" where
  "d5_button c i s =
     (let currentMillis = in_millis i in
      if d5_btc_mode c then
        (if in_reset_btn i then
           (if \<not> d5BtcShowing s then
              Inr ((updateDisplay (s\<lparr>g_currentScreen := 0\<rparr>))
                     \<lparr>d5BtcShowing := True, d5BtcReleaseTime := 0\<rparr>)
            else Inr s)
         else
           (if d5BtcShowing s then
              (if d5_timeout c = 0 then
                 Inr ((drawWeatherScreen (s\<lparr>g_currentScreen := 1\<rparr>))\<lparr>d5BtcShowing := False\<rparr>)
               else if d5BtcReleaseTime s = 0 then
                 Inr (s\<lparr>d5BtcReleaseTime := currentMillis\<rparr>)
               else if currentMillis - d5BtcReleaseTime s \<ge> d5_timeout c then
                 Inr ((drawWeatherScreen (s\<lparr>g_currentScreen := 1\<rparr>))
                        \<lparr>d5BtcShowing := False, d5BtcReleaseTime := 0\<rparr>)
               else Inr s)
            else Inr s))
      else if d5_weather_mode c then
        (if in_reset_btn i then
           (if \<not> d5WeatherShowing s then
              Inr ((drawWeatherScreen (s\<lparr>g_currentScreen := 1\<rparr>))
                     \<lparr>d5WeatherShowing := True, d5WeatherReleaseTime := 0\<rparr>)
            else Inr s)
         else
           (if d5WeatherShowing s then
              (if d5_timeout c = 0 then
                 Inr ((updateDisplay (s\<lparr>g_currentScreen := 0\<rparr>))\<lparr>d5WeatherShowing := False\<rparr>)
               else if d5WeatherReleaseTime s = 0 then
                 Inr (s\<lparr>d5WeatherReleaseTime := currentMillis\<rparr>)
               else if currentMillis - d5WeatherReleaseTime s \<ge> d5_timeout c then
                 Inr ((updateDisplay (s\<lparr>g_currentScreen := 0\<rparr>))
                        \<lparr>d5WeatherShowing := False, d5WeatherReleaseTime := 0\<rparr>)
               else Inr s)
            else Inr s))
      else
        (if in_reset_btn i then
           let s1 = (if btnPressStart s = 0 then s\<lparr>btnPressStart := currentMillis\<rparr> else s);
               duration = currentMillis - btnPressStart s1
           in if duration > 10000 then
                Inl (FactoryReset (emit [DrawResetting, FormatFS, WiFiDisconnect, EspRestart] s1))
              else if duration > 2000 then
                let countdown = sint (10 - duration div 1000)
                in Inr ((emit [DrawCountdown countdown] s1)\<lparr>lastWiFiCheck := currentMillis\<rparr>)
              else Inr s1
         else Inr (s\<lparr>btnPressStart := 0\<rparr>)))"

text \<open>Alert logic (display and LED).\<close>

definition alertTriggered :: "Config \<Rightarrow> State \<Rightarrow> bool" where
  "alertTriggered c s =
     (if g_hasValidData s then
        (if (alert_low c > 0 \<and> g_currentPrice s < real_of_int (alert_low c)) \<or>
            (alert_high c > 0 \<and> g_currentPrice s > real_of_int (alert_high c))
         then True else False)
      else False)"

text \<open>
  Handle the alert duration: returns the flag after the cutoff, and the state with the
  start time taken or cleared.
\<close>

definition alert_duration_check :: "Config \<Rightarrow> Inputs \<Rightarrow> State \<Rightarrow> bool \<times> State" where
  "alert_duration_check c i s =
     (let currentMillis = in_millis i in
      if alertTriggered c s then
        let s1 = (if g_alertStartTime s = 0 then s\<lparr>g_alertStartTime := currentMillis\<rparr> else s)
        in if alert_duration c > 0 \<and>
              currentMillis - g_alertStartTime s1 > alert_duration c * 1000
           then (False, s1) else (True, s1)
      else (False, s\<lparr>g_alertStartTime := 0\<rparr>))"

definition active_pattern :: "Config \<Rightarrow> State \<Rightarrow> uint8" where
  "active_pattern c s =
     (if alert_low c > 0 \<and> g_currentPrice s < real_of_int (alert_low c)
      then blink_pattern_low c
      else if alert_high c > 0 \<and> g_currentPrice s > real_of_int (alert_high c)
      then blink_pattern_high c
      else 0)"

text \<open>The duration of an SOS step: S (0-5), O (6-11), S (12-17).\<close>

definition sos_duration :: "uint8 \<Rightarrow> ulong" where
  "sos_duration step =
     (let duration =
        (if step = 5 then 600 else if step = 11 then 600 else if step = 17 then 2000 else 200)
      in if step \<ge> 6 \<and> step \<le> 10 then (if step mod 2 = 0 then 600 else duration)
         else duration)"

definition sos_pattern :: "Inputs \<Rightarrow> State \<Rightarrow> State" where
  "sos_pattern i s0 =
     (let currentMillis = in_millis i;
          s1 = (if currentMillis - lastBlinkTime s0 > 5000 then s0\<lparr>sosStep := 0\<rparr> else s0);
          duration = sos_duration (sosStep s1);
          s2 = (if currentMillis - lastBlinkTime s1 \<ge> duration then
                  let step = sosStep s1 + 1;
                      step' = (if step > 17 then 0 else step)
                  in s1\<lparr>sosStep := step', blinkState := (step' mod 2 = 0),
                        lastBlinkTime := currentMillis\<rparr>
                else s1)
      in s2\<lparr>blinkState := (sosStep s2 mod 2 = 0)\<rparr>)"

text \<open>Standard patterns (0 = slow, 1 = fast, 2 = strobe).\<close>

definition standard_pattern :: "uint8 \<Rightarrow> Inputs \<Rightarrow> State \<Rightarrow> State" where
  "standard_pattern pattern i s =
     (let currentMillis = in_millis i;
          interval = (if pattern = 1 then 250 else if pattern = 2 then 50 else 1000)
      in if currentMillis - lastBlinkTime s \<ge> interval
         then s\<lparr>blinkState := \<not> blinkState s, lastBlinkTime := currentMillis\<rparr>
         else s)"

definition apply_outputs :: "Config \<Rightarrow> State \<Rightarrow> State" where
  "apply_outputs c s0 =
     (let s = (if alert_mode c = 0 \<or> alert_mode c = 2
               then (if blinkState s0 then updateDisplay s0 else emit [ClearDisplay] s0)
               else s0)
      in if alert_mode c = 1 \<or> alert_mode c = 2
         then emit [DigitalWrite (led_pin c)
                      (if blinkState s then \<not> led_inverted c else led_inverted c)] s
         else s)"

definition alert_idle :: "Config \<Rightarrow> State \<Rightarrow> State" where
  "alert_idle c s0 =
     (let s = (if \<not> blinkState s0 then refreshCurrentScreen (s0\<lparr>blinkState := True\<rparr>) else s0)
      in if \<not> ledCleanedUp s then
           (if alert_mode c = 1 \<or> alert_mode c = 2
            then emit [DigitalWrite (led_pin c) (led_inverted c)] s
            else s)\<lparr>ledCleanedUp := True\<rparr>
         else s)"

definition alert_logic :: "Config \<Rightarrow> Inputs \<Rightarrow> State \<Rightarrow> State" where
  "alert_logic c i s0 =
     (let r = alert_duration_check c i s0 in
      if fst r then
        let s = (snd r)\<lparr>ledCleanedUp := False\<rparr>;
            pattern = active_pattern c s;
            s = (if pattern = 3 then sos_pattern i s else standard_pattern pattern i s)
        in apply_outputs c s
      else alert_idle c (snd r))"

subsection \<open>The loop\<close>

text \<open>
  One iteration in normal operation (not in config mode). The web server's request
  handling is outside the model; saving a configuration restarts the device.
\<close>

definition loop :: "Config \<Rightarrow> Inputs \<Rightarrow> State \<Rightarrow> halt + State" where
  "loop c i s =
     (case d5_button c i
             (touch_polling c i
               (screen_button c i
                 (on_demand_return c i
                   (screen_cycling c i
                     (poll_weather c i
                       (poll_price c i
                         (wifi_check c i s))))))) of
        Inl h \<Rightarrow> Inl h
      | Inr s' \<Rightarrow> Inr (alert_logic c i s'))"

text \<open>Successive iterations; nothing runs after a restart.\<close>

fun run :: "Config \<Rightarrow> Inputs list \<Rightarrow> State \<Rightarrow> halt + State" where
  "run c [] s = Inr s"
| "run c (i # rest) s = (case loop c i s of Inl h \<Rightarrow> Inl h | Inr s' \<Rightarrow> run c rest s')"

text \<open>
  The end of \<^verbatim>\<open>setup()\<close> once WiFi is connected: the initial fetches, the clock read
  for the weather poll and for the screen timer, and the initial screen.
\<close>

definition setup_ticker :: "Config \<Rightarrow> net \<Rightarrow> wnet \<Rightarrow> ulong \<Rightarrow> ulong \<Rightarrow> State" where
  "setup_ticker c n w t_weather t_screen =
     (let s = fetchPrice c n (init_state\<lparr>g_wifiConnected := True\<rparr>);
          s = (if weather_enabled c
               then (fetchWeather c w s)\<lparr>g_lastWeatherPoll := t_weather\<rparr> else s);
          s = s\<lparr>g_lastScreenSwitch := t_screen\<rparr>
      in if d5_btc_mode c \<and> weather_enabled c
         then drawWeatherScreen (s\<lparr>g_currentScreen := 1\<rparr>)
         else updateDisplay (s\<lparr>g_currentScreen := 0\<rparr>))"

text \<open>
  Inputs of an iteration at clock value \<open>t\<close> in which nothing happens outside: WiFi is
  up, no provider answers, no button is pressed (D6 is high, D5 and the touch pins low).
\<close>

definition quiet :: "ulong \<Rightarrow> Inputs" where
  "quiet t =
     \<lparr> in_millis = t, in_wifi_status = True, in_net_reconnect = (\<lambda>_. None),
       in_net_poll = (\<lambda>_. None), in_millis_stale = t, in_wnet = (\<lambda>_. None),
       in_millis_wstale = t, in_screen_btn = True, in_reset_btn = False,
       in_btn_a = False, in_btn_b = False, in_btn_c = False \<rparr>"

subsection \<open>Auxiliary notions for the properties\<close>

text \<open>The state at the end of an iteration, restarted or not.\<close>

fun final :: "halt + State \<Rightarrow> State" where
  "final (Inl (FactoryReset s)) = s"
| "final (Inr s) = s"

text \<open>No price provider answers; no weather provider answers.\<close>

definition all_fail :: net where
  "all_fail = (\<lambda>_. None)"

definition no_weather :: wnet where
  "no_weather = (\<lambda>_. None)"

text \<open>
  The device after \<^verbatim>\<open>setup()\<close> under a configuration when no provider answered
  the initial fetches (the clock read 7000 at the end of setup).
\<close>

definition boot :: "Config \<Rightarrow> State" where
  "boot c = setup_ticker c all_fail no_weather 7000 7000"

text \<open>
  The staleness invariant in the words of the specification: the flag is set iff a value
  has been acquired and more than three poll intervals have passed since the last success.
\<close>

definition stale_invariant :: "Config \<Rightarrow> ulong \<Rightarrow> State \<Rightarrow> bool" where
  "stale_invariant c now s =
     (g_dataStale s = (g_hasValidData s \<and> now - g_lastSuccessTime s > 3 * poll_interval c))"

text \<open>
  The ring of the specification: the providers in their fixed order Binance, CoinGecko,
  Coinbase, Kraken, read cyclically from a starting provider.
\<close>

definition provider_index :: "provider \<Rightarrow> nat" where
  "provider_index p = (case p of Binance \<Rightarrow> 0 | CoinGecko \<Rightarrow> 1 | Coinbase \<Rightarrow> 2 | Kraken \<Rightarrow> 3)"

definition ring_order :: "provider \<Rightarrow> provider list" where
  "ring_order p = rotate (provider_index p) [Binance, CoinGecko, Coinbase, Kraken]"

text \<open>
  The orders that the comment at the head of \<^verbatim>\<open>fetchPrice\<close> documents for each
  \<^verbatim>\<open>api_source\<close>, and the provider each one starts with.
\<close>

definition preferred :: "uint8 \<Rightarrow> provider" where
  "preferred src =
     (if src = 2 then CoinGecko else if src = 3 then Coinbase
      else if src = 4 then Kraken else Binance)"

definition fallback_order :: "uint8 \<Rightarrow> provider list" where
  "fallback_order src =
     (if src = 1 then [Binance]
      else if src = 2 then [CoinGecko, Binance, Coinbase, Kraken]
      else if src = 3 then [Coinbase, Binance, CoinGecko, Kraken]
      else if src = 4 then [Kraken, Binance, CoinGecko, Coinbase]
      else [Binance, CoinGecko, Coinbase, Kraken])"

text \<open>
  The providers asked along an order: every one up to and including the first that
  answers.
\<close>

definition attempts :: "net \<Rightarrow> provider list \<Rightarrow> provider list" where
  "attempts n ps = take (Suc (length (takeWhile (\<lambda>p. n p = None) ps))) ps"

text \<open>A network on which only Coinbase answers, and a freshly connected device.\<close>

definition coinbase_only :: net where
  "coinbase_only =
     (\<lambda>p. if p = Coinbase
          then Some \<lparr>r_price = 40000, r_change = 0, r_open = None, r_millis = 9000\<rparr>
          else None)"

definition connected :: State where
  "connected = init_state\<lparr>g_wifiConnected := True\<rparr>"

text \<open>
  Inputs with the D5 button held, and with the screen button on D6 held; the condition
  under which the release of D6 counts as a short press (more than 50 ms and less than
  1 s after the press was first seen).
\<close>

definition d5_pressed :: "ulong \<Rightarrow> Inputs" where
  "d5_pressed t = (quiet t)\<lparr>in_reset_btn := True\<rparr>"

definition d6_pressed :: "ulong \<Rightarrow> Inputs" where
  "d6_pressed t = (quiet t)\<lparr>in_screen_btn := False\<rparr>"


text \<open>
  Configurations as the settings page can save them: D5 as weather button with the
  weather feature off and on (a D5 role forces \<^verbatim>\<open>button_mode\<close> 3), and the
  always-weather mode.
\<close>

definition d5_weather_no_feature :: Config where
  "d5_weather_no_feature = default_config\<lparr>d5_weather_mode := True, button_mode := 3\<rparr>"

definition d5_weather_config :: Config where
  "d5_weather_config =
     default_config\<lparr>weather_enabled := True, d5_weather_mode := True, button_mode := 3\<rparr>"

definition always_weather_config :: Config where
  "always_weather_config = default_config\<lparr>weather_enabled := True, button_mode := 1\<rparr>"










section \<open>Properties\<close>

subsection \<open>What each block leaves alone\<close>

text \<open>
  Each block of the loop writes few of the variables. The lemmas below record, for the
  variables that the properties speak about, which blocks leave them as they were.
\<close>

lemma emit_frame [simp]:
  "g_dataStale (emit es s) = g_dataStale s"
  "g_lastSuccessTime (emit es s) = g_lastSuccessTime s"
  "g_hasValidData (emit es s) = g_hasValidData s"
  "g_currentPrice (emit es s) = g_currentPrice s"
  "g_lastPollTime (emit es s) = g_lastPollTime s"
  "g_currentScreen (emit es s) = g_currentScreen s"
  "screenBtnPressStart (emit es s) = screenBtnPressStart s"
  "screenBtnHandled (emit es s) = screenBtnHandled s"
  "btnPressStart (emit es s) = btnPressStart s"
  "g_alertStartTime (emit es s) = g_alertStartTime s"
  "blinkState (emit es s) = blinkState s"
  "ledCleanedUp (emit es s) = ledCleanedUp s"
  by (simp_all add: emit_def)

lemma updateDisplay_frame [simp]:
  "g_dataStale (updateDisplay s) = g_dataStale s"
  "g_lastSuccessTime (updateDisplay s) = g_lastSuccessTime s"
  "g_hasValidData (updateDisplay s) = g_hasValidData s"
  "g_currentPrice (updateDisplay s) = g_currentPrice s"
  "g_lastPollTime (updateDisplay s) = g_lastPollTime s"
  "g_currentScreen (updateDisplay s) = g_currentScreen s"
  "screenBtnPressStart (updateDisplay s) = screenBtnPressStart s"
  "screenBtnHandled (updateDisplay s) = screenBtnHandled s"
  "btnPressStart (updateDisplay s) = btnPressStart s"
  "g_alertStartTime (updateDisplay s) = g_alertStartTime s"
  "blinkState (updateDisplay s) = blinkState s"
  "ledCleanedUp (updateDisplay s) = ledCleanedUp s"
  by (simp_all add: updateDisplay_def)

lemma drawWeatherScreen_frame [simp]:
  "g_dataStale (drawWeatherScreen s) = g_dataStale s"
  "g_lastSuccessTime (drawWeatherScreen s) = g_lastSuccessTime s"
  "g_hasValidData (drawWeatherScreen s) = g_hasValidData s"
  "g_currentPrice (drawWeatherScreen s) = g_currentPrice s"
  "g_lastPollTime (drawWeatherScreen s) = g_lastPollTime s"
  "g_currentScreen (drawWeatherScreen s) = g_currentScreen s"
  "screenBtnPressStart (drawWeatherScreen s) = screenBtnPressStart s"
  "screenBtnHandled (drawWeatherScreen s) = screenBtnHandled s"
  "btnPressStart (drawWeatherScreen s) = btnPressStart s"
  "g_alertStartTime (drawWeatherScreen s) = g_alertStartTime s"
  "blinkState (drawWeatherScreen s) = blinkState s"
  "ledCleanedUp (drawWeatherScreen s) = ledCleanedUp s"
  by (simp_all add: drawWeatherScreen_def)

lemma refreshCurrentScreen_frame [simp]:
  "g_dataStale (refreshCurrentScreen s) = g_dataStale s"
  "g_lastSuccessTime (refreshCurrentScreen s) = g_lastSuccessTime s"
  "g_hasValidData (refreshCurrentScreen s) = g_hasValidData s"
  "g_currentPrice (refreshCurrentScreen s) = g_currentPrice s"
  "g_lastPollTime (refreshCurrentScreen s) = g_lastPollTime s"
  "g_currentScreen (refreshCurrentScreen s) = g_currentScreen s"
  "screenBtnPressStart (refreshCurrentScreen s) = screenBtnPressStart s"
  "screenBtnHandled (refreshCurrentScreen s) = screenBtnHandled s"
  "btnPressStart (refreshCurrentScreen s) = btnPressStart s"
  "g_alertStartTime (refreshCurrentScreen s) = g_alertStartTime s"
  "blinkState (refreshCurrentScreen s) = blinkState s"
  "ledCleanedUp (refreshCurrentScreen s) = ledCleanedUp s"
  by (simp_all add: refreshCurrentScreen_def)

lemma fetchPriceBinance_frame:
  "g_lastPollTime (snd (fetchPriceBinance n s)) = g_lastPollTime s"
  "g_currentScreen (snd (fetchPriceBinance n s)) = g_currentScreen s"
  "screenBtnPressStart (snd (fetchPriceBinance n s)) = screenBtnPressStart s"
  "screenBtnHandled (snd (fetchPriceBinance n s)) = screenBtnHandled s"
  "btnPressStart (snd (fetchPriceBinance n s)) = btnPressStart s"
  "g_alertStartTime (snd (fetchPriceBinance n s)) = g_alertStartTime s"
  "blinkState (snd (fetchPriceBinance n s)) = blinkState s"
  "ledCleanedUp (snd (fetchPriceBinance n s)) = ledCleanedUp s"
  by (simp_all add: fetchPriceBinance_def Let_def split: option.splits)

lemma fetchPriceCoinGecko_frame:
  "g_lastPollTime (snd (fetchPriceCoinGecko n s)) = g_lastPollTime s"
  "g_currentScreen (snd (fetchPriceCoinGecko n s)) = g_currentScreen s"
  "screenBtnPressStart (snd (fetchPriceCoinGecko n s)) = screenBtnPressStart s"
  "screenBtnHandled (snd (fetchPriceCoinGecko n s)) = screenBtnHandled s"
  "btnPressStart (snd (fetchPriceCoinGecko n s)) = btnPressStart s"
  "g_alertStartTime (snd (fetchPriceCoinGecko n s)) = g_alertStartTime s"
  "blinkState (snd (fetchPriceCoinGecko n s)) = blinkState s"
  "ledCleanedUp (snd (fetchPriceCoinGecko n s)) = ledCleanedUp s"
  by (simp_all add: fetchPriceCoinGecko_def Let_def split: option.splits)

lemma fetchPriceCoinbase_frame:
  "g_lastPollTime (snd (fetchPriceCoinbase n s)) = g_lastPollTime s"
  "g_currentScreen (snd (fetchPriceCoinbase n s)) = g_currentScreen s"
  "screenBtnPressStart (snd (fetchPriceCoinbase n s)) = screenBtnPressStart s"
  "screenBtnHandled (snd (fetchPriceCoinbase n s)) = screenBtnHandled s"
  "btnPressStart (snd (fetchPriceCoinbase n s)) = btnPressStart s"
  "g_alertStartTime (snd (fetchPriceCoinbase n s)) = g_alertStartTime s"
  "blinkState (snd (fetchPriceCoinbase n s)) = blinkState s"
  "ledCleanedUp (snd (fetchPriceCoinbase n s)) = ledCleanedUp s"
  by (simp_all add: fetchPriceCoinbase_def Let_def split: option.splits)

lemma fetchPriceKraken_frame:
  "g_lastPollTime (snd (fetchPriceKraken n s)) = g_lastPollTime s"
  "g_currentScreen (snd (fetchPriceKraken n s)) = g_currentScreen s"
  "screenBtnPressStart (snd (fetchPriceKraken n s)) = screenBtnPressStart s"
  "screenBtnHandled (snd (fetchPriceKraken n s)) = screenBtnHandled s"
  "btnPressStart (snd (fetchPriceKraken n s)) = btnPressStart s"
  "g_alertStartTime (snd (fetchPriceKraken n s)) = g_alertStartTime s"
  "blinkState (snd (fetchPriceKraken n s)) = blinkState s"
  "ledCleanedUp (snd (fetchPriceKraken n s)) = ledCleanedUp s"
  by (simp_all add: fetchPriceKraken_def Let_def split: option.splits)

lemma fetchPrice_frame:
  "g_lastPollTime (fetchPrice c n s) = g_lastPollTime s"
  "g_currentScreen (fetchPrice c n s) = g_currentScreen s"
  "screenBtnPressStart (fetchPrice c n s) = screenBtnPressStart s"
  "screenBtnHandled (fetchPrice c n s) = screenBtnHandled s"
  "btnPressStart (fetchPrice c n s) = btnPressStart s"
  "g_alertStartTime (fetchPrice c n s) = g_alertStartTime s"
  "blinkState (fetchPrice c n s) = blinkState s"
  "ledCleanedUp (fetchPrice c n s) = ledCleanedUp s"
  by (simp_all add: fetchPrice_def Let_def or_else_def fetchPriceBinance_frame
      fetchPriceCoinGecko_frame fetchPriceCoinbase_frame fetchPriceKraken_frame)

lemma wifi_check_frame:
  "g_lastPollTime (wifi_check c i s) = g_lastPollTime s"
  "g_currentScreen (wifi_check c i s) = g_currentScreen s"
  "screenBtnPressStart (wifi_check c i s) = screenBtnPressStart s"
  "screenBtnHandled (wifi_check c i s) = screenBtnHandled s"
  "btnPressStart (wifi_check c i s) = btnPressStart s"
  "g_alertStartTime (wifi_check c i s) = g_alertStartTime s"
  "blinkState (wifi_check c i s) = blinkState s"
  "ledCleanedUp (wifi_check c i s) = ledCleanedUp s"
  by (simp_all add: wifi_check_def Let_def fetchPrice_frame)

lemma poll_price_frame:
  "g_currentScreen (poll_price c i s) = g_currentScreen s"
  "screenBtnPressStart (poll_price c i s) = screenBtnPressStart s"
  "screenBtnHandled (poll_price c i s) = screenBtnHandled s"
  "btnPressStart (poll_price c i s) = btnPressStart s"
  "g_alertStartTime (poll_price c i s) = g_alertStartTime s"
  "blinkState (poll_price c i s) = blinkState s"
  "ledCleanedUp (poll_price c i s) = ledCleanedUp s"
  by (simp_all add: poll_price_def Let_def fetchPrice_frame)

lemma fetchWeatherOpenMeteo_frame:
  "g_dataStale (snd (fetchWeatherOpenMeteo w s)) = g_dataStale s"
  "g_lastSuccessTime (snd (fetchWeatherOpenMeteo w s)) = g_lastSuccessTime s"
  "g_hasValidData (snd (fetchWeatherOpenMeteo w s)) = g_hasValidData s"
  "g_currentPrice (snd (fetchWeatherOpenMeteo w s)) = g_currentPrice s"
  "g_lastPollTime (snd (fetchWeatherOpenMeteo w s)) = g_lastPollTime s"
  "g_currentScreen (snd (fetchWeatherOpenMeteo w s)) = g_currentScreen s"
  "screenBtnPressStart (snd (fetchWeatherOpenMeteo w s)) = screenBtnPressStart s"
  "screenBtnHandled (snd (fetchWeatherOpenMeteo w s)) = screenBtnHandled s"
  "btnPressStart (snd (fetchWeatherOpenMeteo w s)) = btnPressStart s"
  "g_alertStartTime (snd (fetchWeatherOpenMeteo w s)) = g_alertStartTime s"
  "blinkState (snd (fetchWeatherOpenMeteo w s)) = blinkState s"
  "ledCleanedUp (snd (fetchWeatherOpenMeteo w s)) = ledCleanedUp s"
  by (simp_all add: fetchWeatherOpenMeteo_def Let_def split: option.splits)

lemma fetchWeatherBrightSky_frame:
  "g_dataStale (snd (fetchWeatherBrightSky w s)) = g_dataStale s"
  "g_lastSuccessTime (snd (fetchWeatherBrightSky w s)) = g_lastSuccessTime s"
  "g_hasValidData (snd (fetchWeatherBrightSky w s)) = g_hasValidData s"
  "g_currentPrice (snd (fetchWeatherBrightSky w s)) = g_currentPrice s"
  "g_lastPollTime (snd (fetchWeatherBrightSky w s)) = g_lastPollTime s"
  "g_currentScreen (snd (fetchWeatherBrightSky w s)) = g_currentScreen s"
  "screenBtnPressStart (snd (fetchWeatherBrightSky w s)) = screenBtnPressStart s"
  "screenBtnHandled (snd (fetchWeatherBrightSky w s)) = screenBtnHandled s"
  "btnPressStart (snd (fetchWeatherBrightSky w s)) = btnPressStart s"
  "g_alertStartTime (snd (fetchWeatherBrightSky w s)) = g_alertStartTime s"
  "blinkState (snd (fetchWeatherBrightSky w s)) = blinkState s"
  "ledCleanedUp (snd (fetchWeatherBrightSky w s)) = ledCleanedUp s"
  by (simp_all add: fetchWeatherBrightSky_def Let_def split: option.splits)

lemma fetchWeather_frame:
  "g_dataStale (fetchWeather c w s) = g_dataStale s"
  "g_lastSuccessTime (fetchWeather c w s) = g_lastSuccessTime s"
  "g_hasValidData (fetchWeather c w s) = g_hasValidData s"
  "g_currentPrice (fetchWeather c w s) = g_currentPrice s"
  "g_lastPollTime (fetchWeather c w s) = g_lastPollTime s"
  "g_currentScreen (fetchWeather c w s) = g_currentScreen s"
  "screenBtnPressStart (fetchWeather c w s) = screenBtnPressStart s"
  "screenBtnHandled (fetchWeather c w s) = screenBtnHandled s"
  "btnPressStart (fetchWeather c w s) = btnPressStart s"
  "g_alertStartTime (fetchWeather c w s) = g_alertStartTime s"
  "blinkState (fetchWeather c w s) = blinkState s"
  "ledCleanedUp (fetchWeather c w s) = ledCleanedUp s"
  by (simp_all add: fetchWeather_def Let_def fetchWeatherOpenMeteo_frame
      fetchWeatherBrightSky_frame)

lemma poll_weather_frame:
  "g_dataStale (poll_weather c i s) = g_dataStale s"
  "g_lastSuccessTime (poll_weather c i s) = g_lastSuccessTime s"
  "g_hasValidData (poll_weather c i s) = g_hasValidData s"
  "g_currentPrice (poll_weather c i s) = g_currentPrice s"
  "g_lastPollTime (poll_weather c i s) = g_lastPollTime s"
  "g_currentScreen (poll_weather c i s) = g_currentScreen s"
  "screenBtnPressStart (poll_weather c i s) = screenBtnPressStart s"
  "screenBtnHandled (poll_weather c i s) = screenBtnHandled s"
  "btnPressStart (poll_weather c i s) = btnPressStart s"
  "g_alertStartTime (poll_weather c i s) = g_alertStartTime s"
  "blinkState (poll_weather c i s) = blinkState s"
  "ledCleanedUp (poll_weather c i s) = ledCleanedUp s"
  by (simp_all add: poll_weather_def Let_def fetchWeather_frame)

lemma screen_cycling_frame:
  "g_dataStale (screen_cycling c i s) = g_dataStale s"
  "g_lastSuccessTime (screen_cycling c i s) = g_lastSuccessTime s"
  "g_hasValidData (screen_cycling c i s) = g_hasValidData s"
  "g_currentPrice (screen_cycling c i s) = g_currentPrice s"
  "g_lastPollTime (screen_cycling c i s) = g_lastPollTime s"
  "screenBtnPressStart (screen_cycling c i s) = screenBtnPressStart s"
  "screenBtnHandled (screen_cycling c i s) = screenBtnHandled s"
  "btnPressStart (screen_cycling c i s) = btnPressStart s"
  "g_alertStartTime (screen_cycling c i s) = g_alertStartTime s"
  "blinkState (screen_cycling c i s) = blinkState s"
  "ledCleanedUp (screen_cycling c i s) = ledCleanedUp s"
  by (simp_all add: screen_cycling_def Let_def)

lemma on_demand_return_frame:
  "g_dataStale (on_demand_return c i s) = g_dataStale s"
  "g_lastSuccessTime (on_demand_return c i s) = g_lastSuccessTime s"
  "g_hasValidData (on_demand_return c i s) = g_hasValidData s"
  "g_currentPrice (on_demand_return c i s) = g_currentPrice s"
  "g_lastPollTime (on_demand_return c i s) = g_lastPollTime s"
  "screenBtnPressStart (on_demand_return c i s) = screenBtnPressStart s"
  "screenBtnHandled (on_demand_return c i s) = screenBtnHandled s"
  "btnPressStart (on_demand_return c i s) = btnPressStart s"
  "g_alertStartTime (on_demand_return c i s) = g_alertStartTime s"
  "blinkState (on_demand_return c i s) = blinkState s"
  "ledCleanedUp (on_demand_return c i s) = ledCleanedUp s"
  by (simp_all add: on_demand_return_def Let_def)

lemma screen_button_frame:
  "g_dataStale (screen_button c i s) = g_dataStale s"
  "g_lastSuccessTime (screen_button c i s) = g_lastSuccessTime s"
  "g_hasValidData (screen_button c i s) = g_hasValidData s"
  "g_currentPrice (screen_button c i s) = g_currentPrice s"
  "g_lastPollTime (screen_button c i s) = g_lastPollTime s"
  "btnPressStart (screen_button c i s) = btnPressStart s"
  "g_alertStartTime (screen_button c i s) = g_alertStartTime s"
  "blinkState (screen_button c i s) = blinkState s"
  "ledCleanedUp (screen_button c i s) = ledCleanedUp s"
  by (simp_all add: screen_button_def Let_def)

lemma touch_polling_frame:
  "g_dataStale (touch_polling c i s) = g_dataStale s"
  "g_lastSuccessTime (touch_polling c i s) = g_lastSuccessTime s"
  "g_hasValidData (touch_polling c i s) = g_hasValidData s"
  "g_currentPrice (touch_polling c i s) = g_currentPrice s"
  "g_lastPollTime (touch_polling c i s) = g_lastPollTime s"
  "g_currentScreen (touch_polling c i s) = g_currentScreen s"
  "screenBtnPressStart (touch_polling c i s) = screenBtnPressStart s"
  "screenBtnHandled (touch_polling c i s) = screenBtnHandled s"
  "btnPressStart (touch_polling c i s) = btnPressStart s"
  "g_alertStartTime (touch_polling c i s) = g_alertStartTime s"
  "blinkState (touch_polling c i s) = blinkState s"
  "ledCleanedUp (touch_polling c i s) = ledCleanedUp s"
  by (simp_all add: touch_polling_def Let_def)

lemma d5_button_frame:
  "g_dataStale (final (d5_button c i s)) = g_dataStale s"
  "g_lastSuccessTime (final (d5_button c i s)) = g_lastSuccessTime s"
  "g_hasValidData (final (d5_button c i s)) = g_hasValidData s"
  "g_currentPrice (final (d5_button c i s)) = g_currentPrice s"
  "g_lastPollTime (final (d5_button c i s)) = g_lastPollTime s"
  "screenBtnPressStart (final (d5_button c i s)) = screenBtnPressStart s"
  "screenBtnHandled (final (d5_button c i s)) = screenBtnHandled s"
  "g_alertStartTime (final (d5_button c i s)) = g_alertStartTime s"
  "blinkState (final (d5_button c i s)) = blinkState s"
  "ledCleanedUp (final (d5_button c i s)) = ledCleanedUp s"
  by (simp_all add: d5_button_def Let_def)

lemma alert_duration_check_frame:
  "g_dataStale (snd (alert_duration_check c i s)) = g_dataStale s"
  "g_lastSuccessTime (snd (alert_duration_check c i s)) = g_lastSuccessTime s"
  "g_hasValidData (snd (alert_duration_check c i s)) = g_hasValidData s"
  "g_currentPrice (snd (alert_duration_check c i s)) = g_currentPrice s"
  "g_lastPollTime (snd (alert_duration_check c i s)) = g_lastPollTime s"
  "g_currentScreen (snd (alert_duration_check c i s)) = g_currentScreen s"
  "screenBtnPressStart (snd (alert_duration_check c i s)) = screenBtnPressStart s"
  "screenBtnHandled (snd (alert_duration_check c i s)) = screenBtnHandled s"
  "btnPressStart (snd (alert_duration_check c i s)) = btnPressStart s"
  "blinkState (snd (alert_duration_check c i s)) = blinkState s"
  "ledCleanedUp (snd (alert_duration_check c i s)) = ledCleanedUp s"
  by (simp_all add: alert_duration_check_def Let_def)

lemma sos_pattern_frame:
  "g_dataStale (sos_pattern i s) = g_dataStale s"
  "g_lastSuccessTime (sos_pattern i s) = g_lastSuccessTime s"
  "g_hasValidData (sos_pattern i s) = g_hasValidData s"
  "g_currentPrice (sos_pattern i s) = g_currentPrice s"
  "g_lastPollTime (sos_pattern i s) = g_lastPollTime s"
  "g_currentScreen (sos_pattern i s) = g_currentScreen s"
  "screenBtnPressStart (sos_pattern i s) = screenBtnPressStart s"
  "screenBtnHandled (sos_pattern i s) = screenBtnHandled s"
  "btnPressStart (sos_pattern i s) = btnPressStart s"
  "g_alertStartTime (sos_pattern i s) = g_alertStartTime s"
  "ledCleanedUp (sos_pattern i s) = ledCleanedUp s"
  by (simp_all add: sos_pattern_def Let_def)

lemma standard_pattern_frame:
  "g_dataStale (standard_pattern p i s) = g_dataStale s"
  "g_lastSuccessTime (standard_pattern p i s) = g_lastSuccessTime s"
  "g_hasValidData (standard_pattern p i s) = g_hasValidData s"
  "g_currentPrice (standard_pattern p i s) = g_currentPrice s"
  "g_lastPollTime (standard_pattern p i s) = g_lastPollTime s"
  "g_currentScreen (standard_pattern p i s) = g_currentScreen s"
  "screenBtnPressStart (standard_pattern p i s) = screenBtnPressStart s"
  "screenBtnHandled (standard_pattern p i s) = screenBtnHandled s"
  "btnPressStart (standard_pattern p i s) = btnPressStart s"
  "g_alertStartTime (standard_pattern p i s) = g_alertStartTime s"
  "ledCleanedUp (standard_pattern p i s) = ledCleanedUp s"
  by (simp_all add: standard_pattern_def Let_def)

lemma apply_outputs_frame:
  "g_dataStale (apply_outputs c s) = g_dataStale s"
  "g_lastSuccessTime (apply_outputs c s) = g_lastSuccessTime s"
  "g_hasValidData (apply_outputs c s) = g_hasValidData s"
  "g_currentPrice (apply_outputs c s) = g_currentPrice s"
  "g_lastPollTime (apply_outputs c s) = g_lastPollTime s"
  "g_currentScreen (apply_outputs c s) = g_currentScreen s"
  "screenBtnPressStart (apply_outputs c s) = screenBtnPressStart s"
  "screenBtnHandled (apply_outputs c s) = screenBtnHandled s"
  "btnPressStart (apply_outputs c s) = btnPressStart s"
  "g_alertStartTime (apply_outputs c s) = g_alertStartTime s"
  "blinkState (apply_outputs c s) = blinkState s"
  "ledCleanedUp (apply_outputs c s) = ledCleanedUp s"
  by (simp_all add: apply_outputs_def Let_def)

lemma alert_idle_frame:
  "g_dataStale (alert_idle c s) = g_dataStale s"
  "g_lastSuccessTime (alert_idle c s) = g_lastSuccessTime s"
  "g_hasValidData (alert_idle c s) = g_hasValidData s"
  "g_currentPrice (alert_idle c s) = g_currentPrice s"
  "g_lastPollTime (alert_idle c s) = g_lastPollTime s"
  "g_currentScreen (alert_idle c s) = g_currentScreen s"
  "screenBtnPressStart (alert_idle c s) = screenBtnPressStart s"
  "screenBtnHandled (alert_idle c s) = screenBtnHandled s"
  "btnPressStart (alert_idle c s) = btnPressStart s"
  "g_alertStartTime (alert_idle c s) = g_alertStartTime s"
  by (simp_all add: alert_idle_def Let_def)

lemma alert_logic_frame:
  "g_dataStale (alert_logic c i s) = g_dataStale s"
  "g_lastSuccessTime (alert_logic c i s) = g_lastSuccessTime s"
  "g_hasValidData (alert_logic c i s) = g_hasValidData s"
  "g_currentPrice (alert_logic c i s) = g_currentPrice s"
  "g_lastPollTime (alert_logic c i s) = g_lastPollTime s"
  "g_currentScreen (alert_logic c i s) = g_currentScreen s"
  "screenBtnPressStart (alert_logic c i s) = screenBtnPressStart s"
  "screenBtnHandled (alert_logic c i s) = screenBtnHandled s"
  "btnPressStart (alert_logic c i s) = btnPressStart s"
  by (simp_all add: alert_logic_def Let_def alert_duration_check_frame sos_pattern_frame
      standard_pattern_frame apply_outputs_frame alert_idle_frame)

subsection \<open>Evaluating the model on concrete inputs\<close>

lemmas block_defs = wifi_check_def poll_price_def poll_weather_def screen_cycling_def
  on_demand_return_def screen_button_def touch_polling_def d5_button_def alert_logic_def
  alert_duration_check_def alertTriggered_def active_pattern_def sos_pattern_def
  standard_pattern_def apply_outputs_def alert_idle_def updateDisplay_def drawWeatherScreen_def
  refreshCurrentScreen_def emit_def fetchPrice_def fetchWeather_def
  fetchPriceBinance_def fetchPriceCoinGecko_def fetchPriceCoinbase_def fetchPriceKraken_def
  fetchWeatherOpenMeteo_def fetchWeatherBrightSky_def or_else_def sos_duration_def

lemmas eval_defs = loop_def quiet_def init_state_def default_config_def all_fail_def
  no_weather_def setup_ticker_def block_defs Let_def

lemmas input_defs = d5_pressed_def d6_pressed_def d5_weather_no_feature_def d5_weather_config_def
  always_weather_config_def boot_def


subsection \<open>Acquisition\<close>

lemma fetch_stale:
  "g_dataStale (snd (fetchPriceBinance n s)) = (n Binance = None \<and> g_dataStale s)"
  "g_dataStale (snd (fetchPriceCoinGecko n s)) = (n CoinGecko = None \<and> g_dataStale s)"
  "g_dataStale (snd (fetchPriceCoinbase n s)) = (n Coinbase = None \<and> g_dataStale s)"
  "g_dataStale (snd (fetchPriceKraken n s)) = (n Kraken = None \<and> g_dataStale s)"
  by (simp_all add: fetchPriceBinance_def fetchPriceCoinGecko_def fetchPriceCoinbase_def
      fetchPriceKraken_def Let_def emit_def split: option.splits)

lemma fetch_lastSuccess_fail:
  "n Binance = None \<Longrightarrow> g_lastSuccessTime (snd (fetchPriceBinance n s)) = g_lastSuccessTime s"
  "n CoinGecko = None \<Longrightarrow> g_lastSuccessTime (snd (fetchPriceCoinGecko n s)) = g_lastSuccessTime s"
  "n Coinbase = None \<Longrightarrow> g_lastSuccessTime (snd (fetchPriceCoinbase n s)) = g_lastSuccessTime s"
  "n Kraken = None \<Longrightarrow> g_lastSuccessTime (snd (fetchPriceKraken n s)) = g_lastSuccessTime s"
  by (simp_all add: fetchPriceBinance_def fetchPriceCoinGecko_def fetchPriceCoinbase_def
      fetchPriceKraken_def Let_def emit_def)

lemma fetch_fst:
  "fst (fetchPriceBinance n s) = (n Binance \<noteq> None)"
  "fst (fetchPriceCoinGecko n s) = (n CoinGecko \<noteq> None)"
  "fst (fetchPriceCoinbase n s) = (n Coinbase \<noteq> None)"
  "fst (fetchPriceKraken n s) = (n Kraken \<noteq> None)"
  by (simp_all add: fetchPriceBinance_def fetchPriceCoinGecko_def fetchPriceCoinbase_def
      fetchPriceKraken_def Let_def split: option.splits)

lemma fetchPrice_stale_mono: "g_dataStale (fetchPrice c n s) \<Longrightarrow> g_dataStale s"
  by (simp add: fetchPrice_def Let_def or_else_def fetch_stale fetch_fst split: if_splits)

lemma fetchPrice_all_fail:
  "g_dataStale (fetchPrice c all_fail s) = g_dataStale s"
  "g_lastSuccessTime (fetchPrice c all_fail s) = g_lastSuccessTime s"
  by (simp_all add: fetchPrice_def Let_def or_else_def fetch_stale fetch_fst
      fetch_lastSuccess_fail all_fail_def)

lemma wifi_check_stale_mono: "g_dataStale (wifi_check c i s) \<Longrightarrow> g_dataStale s"
  by (auto simp add: wifi_check_def Let_def split: if_splits dest: fetchPrice_stale_mono)

lemma wifi_check_all_fail:
  "in_net_reconnect i = all_fail \<Longrightarrow> g_dataStale (wifi_check c i s) = g_dataStale s"
  "in_net_reconnect i = all_fail \<Longrightarrow> g_lastSuccessTime (wifi_check c i s) = g_lastSuccessTime s"
  by (simp_all add: wifi_check_def Let_def fetchPrice_all_fail)

lemma final_loop:
  "final (loop c i s) =
     (case d5_button c i (touch_polling c i (screen_button c i (on_demand_return c i
        (screen_cycling c i (poll_weather c i (poll_price c i (wifi_check c i s))))))) of
        Inl h \<Rightarrow> final (Inl h) | Inr s' \<Rightarrow> alert_logic c i s')"
  by (simp add: loop_def split: sum.splits)

lemma loop_acquisition:
  "g_dataStale (final (loop c i s)) = g_dataStale (poll_price c i (wifi_check c i s))"
  "g_lastSuccessTime (final (loop c i s)) = g_lastSuccessTime (poll_price c i (wifi_check c i s))"
proof -
  let ?t = "touch_polling c i (screen_button c i (on_demand_return c i
        (screen_cycling c i (poll_weather c i (poll_price c i (wifi_check c i s))))))"
  have a: "g_dataStale (final (d5_button c i ?t)) = g_dataStale (poll_price c i (wifi_check c i s))"
    by (simp add: d5_button_frame touch_polling_frame screen_button_frame
        on_demand_return_frame screen_cycling_frame poll_weather_frame)
  have b: "g_lastSuccessTime (final (d5_button c i ?t)) = g_lastSuccessTime (poll_price c i (wifi_check c i s))"
    by (simp add: d5_button_frame touch_polling_frame screen_button_frame
        on_demand_return_frame screen_cycling_frame poll_weather_frame)
  show "g_dataStale (final (loop c i s)) = g_dataStale (poll_price c i (wifi_check c i s))"
    using a by (cases "d5_button c i ?t") (simp_all add: final_loop alert_logic_frame)
  show "g_lastSuccessTime (final (loop c i s)) = g_lastSuccessTime (poll_price c i (wifi_check c i s))"
    using b by (cases "d5_button c i ?t") (simp_all add: final_loop alert_logic_frame)
qed

lemma poll_price_stale:
  "g_dataStale (poll_price c i s) =
     (if poll_interval c \<le> in_millis i - g_lastPollTime s
      then g_dataStale (fetchPrice c (in_net_poll i) s) \<or>
           poll_interval c * 3 < in_millis_stale i - g_lastSuccessTime (fetchPrice c (in_net_poll i) s)
      else g_dataStale s)"
  "g_lastSuccessTime (poll_price c i s) =
     (if poll_interval c \<le> in_millis i - g_lastPollTime s
      then g_lastSuccessTime (fetchPrice c (in_net_poll i) s)
      else g_lastSuccessTime s)"
  by (simp_all add: poll_price_def Let_def)

text \<open>
  C10. When WiFi is not connected, \<^verbatim>\<open>fetchPrice\<close> returns at once and leaves the whole
  state as it was (no request is sent, the failure counter is not incremented). A poll
  in that situation changes neither price, change, has-value flag, provider, last
  success time nor failure counter, while its staleness check still runs: once the poll
  is due, the stale flag afterwards is the old flag or the outcome of the check.
\<close>

theorem fetchPrice_disconnected:
  assumes "\<not> g_wifiConnected s"
  shows "fetchPrice c n s = s \<and>
         g_currentPrice (poll_price c i s) = g_currentPrice s \<and>
         g_priceChange24h (poll_price c i s) = g_priceChange24h s \<and>
         g_hasValidData (poll_price c i s) = g_hasValidData s \<and>
         g_currentProvider (poll_price c i s) = g_currentProvider s \<and>
         g_lastSuccessTime (poll_price c i s) = g_lastSuccessTime s \<and>
         g_consecutiveFailures (poll_price c i s) = g_consecutiveFailures s \<and>
         (poll_interval c \<le> in_millis i - g_lastPollTime s \<longrightarrow>
            g_dataStale (poll_price c i s) =
              (g_dataStale s \<or> poll_interval c * 3 < in_millis_stale i - g_lastSuccessTime s))"
proof -
  have f: "fetchPrice c m s = s" for m
    using assms by (simp add: fetchPrice_def)
  show ?thesis
    by (simp add: f poll_price_def Let_def updateDisplay_def emit_def)
qed

theorem fetchPrice_disconnected_witness:
  "\<not> g_wifiConnected init_state \<and>
   fetchPrice default_config all_fail init_state = init_state \<and>
   g_consecutiveFailures (poll_price default_config (quiet 200000) init_state) = 0 \<and>
   g_dataStale (poll_price default_config (quiet 200000) init_state)"
  using fetchPrice_disconnected [of init_state default_config all_fail "quiet 200000"]
  by (simp add: init_state_def default_config_def quiet_def)

text \<open>
  C1, as the code has it. In every iteration of the loop: if the stale flag goes from
  false to true, then a poll was due and, at that poll's check, \<^verbatim>\<open>millis()\<close> minus the
  last success time exceeded three poll intervals (in 32-bit unsigned arithmetic), never
  earlier. When no provider answers in the iteration, the last success time is kept and
  the flag afterwards is the old flag or (poll due and check exceeded): a failed poll
  inside the three intervals does not set it. The flag is evaluated at polls only, and
  the check does not consult the has-value flag.
\<close>

theorem stale_only_after_three_intervals:
  "(g_dataStale (final (loop c i s)) \<and> \<not> g_dataStale s \<longrightarrow>
      poll_interval c \<le> in_millis i - g_lastPollTime s \<and>
      poll_interval c * 3 < in_millis_stale i - g_lastSuccessTime (final (loop c i s))) \<and>
   (in_net_reconnect i = all_fail \<and> in_net_poll i = all_fail \<longrightarrow>
      g_lastSuccessTime (final (loop c i s)) = g_lastSuccessTime s \<and>
      g_dataStale (final (loop c i s)) =
        (g_dataStale s \<or>
         (poll_interval c \<le> in_millis i - g_lastPollTime s \<and>
          poll_interval c * 3 < in_millis_stale i - g_lastSuccessTime s)))"
proof (intro conjI impI)
  assume a: "g_dataStale (final (loop c i s)) \<and> \<not> g_dataStale s"
  then have ns: "\<not> g_dataStale (wifi_check c i s)"
    using wifi_check_stale_mono by blast
  then have nf: "\<not> g_dataStale (fetchPrice c (in_net_poll i) (wifi_check c i s))"
    using fetchPrice_stale_mono by blast
  from a have p: "g_dataStale (poll_price c i (wifi_check c i s))"
    by (simp add: loop_acquisition)
  show "poll_interval c \<le> in_millis i - g_lastPollTime s"
    using p ns by (simp add: poll_price_stale wifi_check_frame split: if_splits)
  show "poll_interval c * 3 < in_millis_stale i - g_lastSuccessTime (final (loop c i s))"
    using p ns nf by (simp add: loop_acquisition poll_price_stale wifi_check_frame split: if_splits)
next
  assume f: "in_net_reconnect i = all_fail \<and> in_net_poll i = all_fail"
  show "g_lastSuccessTime (final (loop c i s)) = g_lastSuccessTime s"
    using f by (simp add: loop_acquisition poll_price_stale fetchPrice_all_fail wifi_check_all_fail)
  show "g_dataStale (final (loop c i s)) =
        (g_dataStale s \<or>
         (poll_interval c \<le> in_millis i - g_lastPollTime s \<and>
          poll_interval c * 3 < in_millis_stale i - g_lastSuccessTime s))"
    using f by (simp add: loop_acquisition poll_price_stale fetchPrice_all_fail
        wifi_check_all_fail wifi_check_frame)
qed

theorem stale_only_after_three_intervals_witness:
  "\<not> g_dataStale
       (final (run default_config [quiet 60000, quiet 120000, quiet 180000] (boot default_config))) \<and>
   g_dataStale
     (final (loop default_config (quiet 240000)
        (final (run default_config [quiet 60000, quiet 120000, quiet 180000]
                  (boot default_config))))) \<and>
   in_net_reconnect (quiet 240000) = all_fail \<and> in_net_poll (quiet 240000) = all_fail \<and>
   poll_interval default_config \<le> in_millis (quiet 240000) - 180000 \<and>
   poll_interval default_config * 3 < in_millis_stale (quiet 240000) - 0"
  using stale_only_after_three_intervals
    [of default_config "quiet 240000"
        "final (run default_config [quiet 60000, quiet 120000, quiet 180000] (boot default_config))"]
  by (simp add: input_defs eval_defs)

text \<open>
  The invariant as the specification words it fails: after a boot in which no provider
  ever answers, the poll at 240 s sets the stale flag although no value was ever
  acquired.
\<close>

theorem stale_invariant_counterexample:
  "\<not> stale_invariant default_config 240000
       (final (run default_config [quiet 60000, quiet 120000, quiet 180000, quiet 240000]
                 (boot default_config)))"
  by (simp add: stale_invariant_def input_defs eval_defs)

lemma fetch_out:
  "out (snd (fetchPriceBinance n s)) = out s @ [HttpGet Binance]"
  "out (snd (fetchPriceCoinGecko n s)) = out s @ [HttpGet CoinGecko]"
  "out (snd (fetchPriceCoinbase n s)) = out s @ [HttpGet Coinbase]"
  "out (snd (fetchPriceKraken n s)) = out s @ [HttpGet Kraken]"
  by (simp_all add: fetchPriceBinance_def fetchPriceCoinGecko_def fetchPriceCoinbase_def
      fetchPriceKraken_def Let_def emit_def split: option.splits)

lemma fetchPrice_out:
  "g_wifiConnected s \<Longrightarrow>
   out (fetchPrice c n s) = out s @ map HttpGet (attempts n (fallback_order (api_source c)))"
  by (cases "n Binance"; cases "n CoinGecko"; cases "n Coinbase"; cases "n Kraken";
      simp add: fetchPrice_def Let_def or_else_def fallback_order_def attempts_def
        fetch_fst fetch_out)

lemma attempts_split:
  "attempts n ps =
     takeWhile (\<lambda>p. n p = None) ps @ take 1 (dropWhile (\<lambda>p. n p = None) ps)"
proof -
  let ?P = "\<lambda>p. n p = None"
  have "take (Suc (length (takeWhile ?P ps))) (takeWhile ?P ps @ dropWhile ?P ps) =
        takeWhile ?P ps @ take 1 (dropWhile ?P ps)"
    by (simp only: take_append) simp
  then show ?thesis by (simp add: attempts_def)
qed

lemma attempts_butlast_failed:
  "p \<in> set (butlast (attempts n ps)) \<Longrightarrow> n p = None"
proof -
  let ?P = "\<lambda>p. n p = None"
  assume a: "p \<in> set (butlast (attempts n ps))"
  show ?thesis
  proof (cases "dropWhile ?P ps")
    case Nil
    with a have "p \<in> set (butlast (takeWhile ?P ps))" by (simp add: attempts_split)
    then have "p \<in> set (takeWhile ?P ps)" by (rule in_set_butlastD)
    then show ?thesis by (rule set_takeWhileD[THEN conjunct2])
  next
    case (Cons y ys)
    with a have "p \<in> set (takeWhile ?P ps)" by (simp add: attempts_split butlast_append)
    then show ?thesis by (rule set_takeWhileD[THEN conjunct2])
  qed
qed

lemma attempts_last_answers:
  assumes "\<exists>p \<in> set ps. n p \<noteq> None"
  shows "n (last (attempts n ps)) \<noteq> None"
proof -
  let ?P = "\<lambda>p. n p = None"
  from assms have "dropWhile ?P ps \<noteq> []" by (simp add: dropWhile_eq_Nil_conv)
  then obtain y ys where d: "dropWhile ?P ps = y # ys" by (cases "dropWhile ?P ps") auto
  then have "\<not> ?P y" using hd_dropWhile[of ?P ps] by simp
  with d show ?thesis by (simp add: attempts_split)
qed

lemma fallback_order_distinct: "distinct (fallback_order src)"
  by (simp add: fallback_order_def)

lemma fallback_order_preferred:
  "src \<noteq> 1 \<Longrightarrow> fallback_order src =
     preferred src # filter (\<lambda>p. p \<noteq> preferred src) [Binance, CoinGecko, Coinbase, Kraken]"
  by (simp add: fallback_order_def preferred_def)

text \<open>
  C2, as the code has it. One call of \<^verbatim>\<open>fetchPrice\<close> on a connected device asks the
  providers along the order documented for the configured \<^verbatim>\<open>api_source\<close>: Binance
  alone for 1, otherwise the preferred provider first and then the remaining ones in
  the fixed order Binance, CoinGecko, Coinbase, Kraken. It asks each provider at most
  once, every provider before the last one asked has failed, and when some provider of
  the order answers, the last one asked is one that answered: nothing is asked after a
  success.
\<close>

theorem fetchPrice_fallback_order:
  assumes "g_wifiConnected s"
  shows "out (fetchPrice c n s) =
           out s @ map HttpGet (attempts n (fallback_order (api_source c))) \<and>
         (api_source c = 1 \<longrightarrow> fallback_order (api_source c) = [Binance]) \<and>
         (api_source c \<noteq> 1 \<longrightarrow>
            fallback_order (api_source c) =
              preferred (api_source c) #
              filter (\<lambda>p. p \<noteq> preferred (api_source c)) [Binance, CoinGecko, Coinbase, Kraken]) \<and>
         distinct (attempts n (fallback_order (api_source c))) \<and>
         (\<forall>p \<in> set (butlast (attempts n (fallback_order (api_source c)))). n p = None) \<and>
         ((\<exists>p \<in> set (fallback_order (api_source c)). n p \<noteq> None) \<longrightarrow>
            n (last (attempts n (fallback_order (api_source c)))) \<noteq> None)"
proof -
  have "distinct (attempts n (fallback_order (api_source c)))"
    unfolding attempts_def by (rule distinct_take) (rule fallback_order_distinct)
  then show ?thesis
    using assms
    by (simp add: fetchPrice_out fallback_order_preferred attempts_butlast_failed
        attempts_last_answers) (simp add: fallback_order_def)
qed

theorem fetchPrice_fallback_order_witness:
  "g_wifiConnected connected \<and>
   out (fetchPrice (default_config\<lparr>api_source := 2\<rparr>) coinbase_only connected) =
     [HttpGet CoinGecko, HttpGet Binance, HttpGet Coinbase] \<and>
   coinbase_only (last (attempts coinbase_only (fallback_order 2))) \<noteq> None \<and>
   butlast (attempts coinbase_only (fallback_order 2)) = [CoinGecko, Binance]"
  using fetchPrice_fallback_order [of connected "default_config\<lparr>api_source := 2\<rparr>" coinbase_only]
  by (simp add: connected_def init_state_def default_config_def coinbase_only_def
      attempts_def fallback_order_def preferred_def)

text \<open>
  The order is not a ring for every preference: with CoinGecko first and every provider
  failing, Binance is asked second, whereas the ring from CoinGecko continues with
  Coinbase and Kraken and reaches Binance last.
\<close>

theorem ring_order_counterexample:
  "out (fetchPrice (default_config\<lparr>api_source := 2\<rparr>) all_fail connected) =
     map HttpGet [CoinGecko, Binance, Coinbase, Kraken] \<and>
   ring_order CoinGecko = [CoinGecko, Coinbase, Kraken, Binance] \<and>
   out (fetchPrice (default_config\<lparr>api_source := 2\<rparr>) all_fail connected) \<noteq>
     map HttpGet (ring_order CoinGecko)"
  by (simp add: connected_def init_state_def default_config_def all_fail_def ring_order_def
      provider_index_def block_defs Let_def)

subsection \<open>Screens and buttons\<close>

text \<open>
  C3. The secondary screen must not become active while the weather feature is
  disabled. The D5 block of the loop does not consult \<^verbatim>\<open>weather_enabled\<close> (the screen
  cycling, the on-demand return, the D6 button and the initial screen in
  \<^verbatim>\<open>setup()\<close> all do): with D5 configured as weather button and the feature off,
  pressing D5 makes the weather screen the active one.
\<close>

theorem secondary_when_disabled_failing_input:
  "\<not> weather_enabled d5_weather_no_feature \<and>
   g_currentScreen (boot d5_weather_no_feature) = 0 \<and>
   g_currentScreen
     (final (loop d5_weather_no_feature (d5_pressed 10000) (boot d5_weather_no_feature))) = 1"
  by (simp add: input_defs eval_defs)

text \<open>
  C4. With D5 as weather button and a timeout of 5000 ms: the press at 10000 shows the
  weather screen and the release at 11000 starts the countdown. The re-press at 13000
  leaves the recorded release time at 11000; after the second release at 13500 the
  screen is still the weather screen, and at 16000, which is 5000 ms after the first
  release and 2500 ms after the second, the loop reverts to the BTC screen. The pending
  revert was not cancelled by the re-press.
\<close>

theorem d5_repress_failing_input:
  "g_currentScreen
     (final (run d5_weather_config
               [d5_pressed 10000, quiet 11000, d5_pressed 13000, quiet 13500]
               (boot d5_weather_config))) = 1 \<and>
   d5WeatherReleaseTime
     (final (run d5_weather_config
               [d5_pressed 10000, quiet 11000, d5_pressed 13000]
               (boot d5_weather_config))) = 11000 \<and>
   g_currentScreen
     (final (run d5_weather_config
               [d5_pressed 10000, quiet 11000, d5_pressed 13000, quiet 13500, quiet 16000]
               (boot d5_weather_config))) = 0"
  by (simp add: input_defs eval_defs)

lemma countdown_value:
  fixes t :: ulong
  assumes "t \<le> 10000"
  shows "sint (10 - t div 1000) = 10 - int (unat t div 1000)"
proof -
  have u: "unat t \<le> 10000" using assms by (simp add: word_le_nat_alt)
  have d: "unat (t div 1000) = unat t div 1000" by (simp add: unat_div)
  have d10: "unat (t div 1000) \<le> 10" using u d by simp
  then have le: "t div 1000 \<le> 10" by (simp add: word_le_nat_alt)
  have s: "unat (10 - t div 1000) = 10 - unat (t div 1000)"
    using le by (simp add: unat_sub)
  have b: "uint (10 - t div 1000) = 10 - int (unat t div 1000)"
    using s d d10 by (simp add: uint_nat)
  have "sint (10 - t div 1000) = signed_take_bit 31 (uint (10 - t div 1000))"
    by (simp add: sint_uint)
  also have "\<dots> = uint (10 - t div 1000)"
    using d d10 by (intro signed_take_bit_int_eq_self) (simp_all add: b)
  finally show ?thesis by (simp add: b)
qed

lemma d5_button_factory:
  assumes "\<not> d5_btc_mode c" and "\<not> d5_weather_mode c"
  shows "\<not> in_reset_btn i \<Longrightarrow> d5_button c i s = Inr (s\<lparr>btnPressStart := 0\<rparr>)"
    and "in_reset_btn i \<Longrightarrow> btnPressStart s \<noteq> 0 \<Longrightarrow>
           in_millis i - btnPressStart s \<le> 2000 \<Longrightarrow> d5_button c i s = Inr s"
    and "in_reset_btn i \<Longrightarrow> btnPressStart s = 0 \<Longrightarrow>
           d5_button c i s = Inr (s\<lparr>btnPressStart := in_millis i\<rparr>)"
    and "in_reset_btn i \<Longrightarrow> btnPressStart s \<noteq> 0 \<Longrightarrow>
           2000 < in_millis i - btnPressStart s \<Longrightarrow> in_millis i - btnPressStart s \<le> 10000 \<Longrightarrow>
           d5_button c i s =
             Inr ((emit [DrawCountdown (10 - int (unat (in_millis i - btnPressStart s) div 1000))] s)
                    \<lparr>lastWiFiCheck := in_millis i\<rparr>)"
    and "in_reset_btn i \<Longrightarrow> btnPressStart s \<noteq> 0 \<Longrightarrow>
           10000 < in_millis i - btnPressStart s \<Longrightarrow>
           d5_button c i s =
             Inl (FactoryReset (emit [DrawResetting, FormatFS, WiFiDisconnect, EspRestart] s))"
proof -
  have w: "x \<le> 10000" if "x \<le> 2000" for x :: ulong
    using that by (simp add: word_le_nat_alt)
  show "\<not> in_reset_btn i \<Longrightarrow> d5_button c i s = Inr (s\<lparr>btnPressStart := 0\<rparr>)"
    using assms by (simp add: d5_button_def)
  show "in_reset_btn i \<Longrightarrow> btnPressStart s \<noteq> 0 \<Longrightarrow>
           in_millis i - btnPressStart s \<le> 2000 \<Longrightarrow> d5_button c i s = Inr s"
    using assms w [of "in_millis i - btnPressStart s"]
    by (simp add: d5_button_def Let_def not_less)
  show "in_reset_btn i \<Longrightarrow> btnPressStart s = 0 \<Longrightarrow>
           d5_button c i s = Inr (s\<lparr>btnPressStart := in_millis i\<rparr>)"
    using assms by (simp add: d5_button_def Let_def)
  show "in_reset_btn i \<Longrightarrow> btnPressStart s \<noteq> 0 \<Longrightarrow>
           2000 < in_millis i - btnPressStart s \<Longrightarrow> in_millis i - btnPressStart s \<le> 10000 \<Longrightarrow>
           d5_button c i s =
             Inr ((emit [DrawCountdown (10 - int (unat (in_millis i - btnPressStart s) div 1000))] s)
                    \<lparr>lastWiFiCheck := in_millis i\<rparr>)"
    using assms by (simp add: d5_button_def Let_def countdown_value not_less)
  show "in_reset_btn i \<Longrightarrow> btnPressStart s \<noteq> 0 \<Longrightarrow>
           10000 < in_millis i - btnPressStart s \<Longrightarrow>
           d5_button c i s =
             Inl (FactoryReset (emit [DrawResetting, FormatFS, WiFiDisconnect, EspRestart] s))"
    using assms by (simp add: d5_button_def Let_def)
qed



lemma before_d5_btnPressStart:
  "btnPressStart (touch_polling c i (screen_button c i (on_demand_return c i
        (screen_cycling c i (poll_weather c i (poll_price c i (wifi_check c i s))))))) =
   btnPressStart s"
  by (simp add: touch_polling_frame screen_button_frame on_demand_return_frame
      screen_cycling_frame poll_weather_frame poll_price_frame wifi_check_frame)

text \<open>
  C7, as the code has it. With D5 in its factory-reset role: the iteration that first
  sees the button held records the clock value; while the button stays held and the
  recorded value is not 0, an iteration whose hold time \<open>t\<close> (clock minus recorded value)
  is above 2000 and at most 10000 draws the countdown \<open>10 - t div 1000\<close>; no restart
  happens up to and including \<open>t = 10000\<close>; the first iteration with \<open>t > 10000\<close> draws
  the reset notice, formats the file system, drops the WiFi credentials and restarts,
  and no further iteration runs; an iteration that sees the button released never
  restarts and clears the recorded value.
\<close>

theorem factory_reset_watchdog:
  assumes "\<not> d5_btc_mode c" and "\<not> d5_weather_mode c"
  shows
    "(in_reset_btn i \<and> btnPressStart s = 0 \<longrightarrow>
        \<not> isl (loop c i s) \<and> btnPressStart (final (loop c i s)) = in_millis i) \<and>
     (in_reset_btn i \<and> btnPressStart s \<noteq> 0 \<and>
      2000 < in_millis i - btnPressStart s \<and> in_millis i - btnPressStart s \<le> 10000 \<longrightarrow>
        d5_button c i s =
          Inr ((emit [DrawCountdown (10 - int (unat (in_millis i - btnPressStart s) div 1000))] s)
                 \<lparr>lastWiFiCheck := in_millis i\<rparr>)) \<and>
     (in_reset_btn i \<and> btnPressStart s \<noteq> 0 \<and> in_millis i - btnPressStart s \<le> 10000 \<longrightarrow>
        \<not> isl (loop c i s) \<and> btnPressStart (final (loop c i s)) = btnPressStart s) \<and>
     (in_reset_btn i \<and> btnPressStart s \<noteq> 0 \<and> 10000 < in_millis i - btnPressStart s \<longrightarrow>
        d5_button c i s =
          Inl (FactoryReset (emit [DrawResetting, FormatFS, WiFiDisconnect, EspRestart] s)) \<and>
        isl (loop c i s) \<and> run c (i # rest) s = loop c i s) \<and>
     (\<not> in_reset_btn i \<longrightarrow>
        \<not> isl (loop c i s) \<and> btnPressStart (final (loop c i s)) = 0)"
proof -
  let ?t = "touch_polling c i (screen_button c i (on_demand_return c i
        (screen_cycling c i (poll_weather c i (poll_price c i (wifi_check c i s))))))"
  note f = d5_button_factory [OF assms]
  have b: "btnPressStart ?t = btnPressStart s" by (rule before_d5_btnPressStart)
  have held: "\<not> isl (loop c i s) \<and> btnPressStart (final (loop c i s)) = btnPressStart s"
    if h: "in_reset_btn i" "btnPressStart s \<noteq> 0" "in_millis i - btnPressStart s \<le> 10000"
  proof (cases "in_millis i - btnPressStart s \<le> 2000")
    case True
    then have "d5_button c i ?t = Inr ?t" using h b by (simp add: f(2))
    then show ?thesis using b by (simp add: loop_def alert_logic_frame)
  next
    case False
    then have "d5_button c i ?t =
        Inr ((emit [DrawCountdown (10 - int (unat (in_millis i - btnPressStart ?t) div 1000))] ?t)
               \<lparr>lastWiFiCheck := in_millis i\<rparr>)"
      using h b by (intro f(4)) (simp_all add: not_le)
    then show ?thesis using b by (simp add: loop_def alert_logic_frame)
  qed
  have fired: "isl (loop c i s) \<and> run c (i # rest) s = loop c i s"
    if h: "in_reset_btn i" "btnPressStart s \<noteq> 0" "10000 < in_millis i - btnPressStart s"
  proof -
    have "d5_button c i ?t =
        Inl (FactoryReset (emit [DrawResetting, FormatFS, WiFiDisconnect, EspRestart] ?t))"
      using h b by (intro f(5)) simp_all
    then show ?thesis by (simp add: loop_def)
  qed
  have detected: "\<not> isl (loop c i s) \<and> btnPressStart (final (loop c i s)) = in_millis i"
    if h: "in_reset_btn i" "btnPressStart s = 0"
  proof -
    have "d5_button c i ?t = Inr (?t\<lparr>btnPressStart := in_millis i\<rparr>)"
      using h b by (intro f(3)) simp_all
    then show ?thesis by (simp add: loop_def alert_logic_frame)
  qed
  have released: "\<not> isl (loop c i s) \<and> btnPressStart (final (loop c i s)) = 0"
    if h: "\<not> in_reset_btn i"
  proof -
    have "d5_button c i ?t = Inr (?t\<lparr>btnPressStart := 0\<rparr>)" using h by (rule f(1))
    then show ?thesis by (simp add: loop_def alert_logic_frame)
  qed
  show ?thesis
    using held fired released detected f(4) [of i s] f(5) [of i s] by blast
qed

theorem factory_reset_watchdog_witness:
  "\<not> d5_btc_mode default_config \<and> \<not> d5_weather_mode default_config \<and>
   in_reset_btn (d5_pressed 13000) \<and>
   d5_button default_config (d5_pressed 13000) ((boot default_config)\<lparr>btnPressStart := 10000\<rparr>) =
     Inr ((emit [DrawCountdown 7] ((boot default_config)\<lparr>btnPressStart := 10000\<rparr>))
            \<lparr>lastWiFiCheck := 13000\<rparr>) \<and>
   \<not> isl (loop default_config (d5_pressed 13000) ((boot default_config)\<lparr>btnPressStart := 10000\<rparr>)) \<and>
   isl (loop default_config (d5_pressed 20001) ((boot default_config)\<lparr>btnPressStart := 10000\<rparr>)) \<and>
   btnPressStart (boot default_config) = 0 \<and>
   btnPressStart (final (loop default_config (d5_pressed 10000) (boot default_config))) = 10000 \<and>
   \<not> in_reset_btn (quiet 19999) \<and>
   btnPressStart
     (final (loop default_config (quiet 19999) ((boot default_config)\<lparr>btnPressStart := 10000\<rparr>))) = 0"
  using factory_reset_watchdog [of default_config "d5_pressed 10000" "boot default_config"]
        factory_reset_watchdog
          [of default_config "d5_pressed 13000" "(boot default_config)\<lparr>btnPressStart := 10000\<rparr>"]
        factory_reset_watchdog
          [of default_config "d5_pressed 20001" "(boot default_config)\<lparr>btnPressStart := 10000\<rparr>"]
        factory_reset_watchdog
          [of default_config "quiet 19999" "(boot default_config)\<lparr>btnPressStart := 10000\<rparr>"]
  by (simp add: input_defs eval_defs)

text \<open>
  The restart does not happen at exactly 10000 ms of hold: that iteration draws the
  countdown value 0, and the restart comes with the next millisecond.
\<close>

theorem factory_reset_counterexample:
  "\<not> isl (run default_config [d5_pressed 10000, d5_pressed 20000] (boot default_config)) \<and>
   last (out (final (run default_config [d5_pressed 10000, d5_pressed 20000]
                      (boot default_config)))) = DrawCountdown 0 \<and>
   isl (run default_config [d5_pressed 10000, d5_pressed 20001] (boot default_config))"
  by (simp add: input_defs eval_defs)








subsection \<open>Alerts\<close>
































end
